theory Spec2Isabelle
  imports Main
begin

section \<open>Numbers\<close>

text \<open>
  A JavaScript \<open>Number\<close> is an IEEE 754 double. The model keeps the doubles whose
  value is an integer, the two infinities and \<open>NaN\<close>; \<open>NaN\<close> also stands for a
  value that is not a number at all, which behaves like it in \<open><\<close>, \<open>*\<close>, \<open>-\<close>
  and in the casts of Mongoose. The two zeros are not told apart. Sums, differences
  and products of such values are again such values, rounded to the nearest double,
  ties to the even significand.
\<close>

datatype numero = Fin int | Inf_pos | Inf_neg | NaN

text \<open>
  The number of low bits that a magnitude of \<open>2 ^ 53\<close> or more loses to fit the
  53-bit significand.
\<close>

function escala :: "int \<Rightarrow> nat" where
  "escala a = (if a < 9007199254740992 then 0 else Suc (escala (a div 2)))"
  by pat_completeness auto
termination
  by (relation "measure nat") auto

declare escala.simps [simp del]

text \<open>
  The double nearest to the integer \<open>n\<close>. Below \<open>2 ^ 53\<close> every integer is a
  double; above, the significand \<open>q\<close> keeps 53 bits and the remainder \<open>r\<close> decides
  the direction; a result of \<open>2 ^ 1024\<close> or more is an infinity.
\<close>

definition redondear :: "int \<Rightarrow> numero" where
  "redondear n =
     (if \<bar>n\<bar> < 9007199254740992 then Fin n
      else
        let a = \<bar>n\<bar>; e = escala a; q = a div 2 ^ e; r = a mod 2 ^ e; h = 2 ^ (e - 1);
            q' = (if h < r \<or> (r = h \<and> odd q) then q + 1 else q)
        in if 971 < e \<or> (e = 971 \<and> q' = 9007199254740992)
           then (if 0 < n then Inf_pos else Inf_neg)
           else Fin (if 0 < n then q' * 2 ^ e else - (q' * 2 ^ e)))"

fun negar :: "numero \<Rightarrow> numero" where
  "negar (Fin a) = Fin (- a)"
| "negar Inf_pos = Inf_neg"
| "negar Inf_neg = Inf_pos"
| "negar NaN = NaN"

text \<open>\<open>x + y\<close>\<close>

fun suma :: "numero \<Rightarrow> numero \<Rightarrow> numero" where
  "suma (Fin a) (Fin b) = redondear (a + b)"
| "suma NaN y = NaN"
| "suma x NaN = NaN"
| "suma Inf_pos Inf_neg = NaN"
| "suma Inf_neg Inf_pos = NaN"
| "suma Inf_pos y = Inf_pos"
| "suma x Inf_pos = Inf_pos"
| "suma Inf_neg y = Inf_neg"
| "suma x Inf_neg = Inf_neg"

text \<open>\<open>x - y\<close>\<close>

definition resta :: "numero \<Rightarrow> numero \<Rightarrow> numero" where
  "resta x y = suma x (negar y)"

text \<open>\<open>x * y\<close>\<close>

fun mult :: "numero \<Rightarrow> numero \<Rightarrow> numero" where
  "mult (Fin a) (Fin b) = redondear (a * b)"
| "mult NaN y = NaN"
| "mult x NaN = NaN"
| "mult (Fin a) Inf_pos = (if a = 0 then NaN else if 0 < a then Inf_pos else Inf_neg)"
| "mult (Fin a) Inf_neg = (if a = 0 then NaN else if 0 < a then Inf_neg else Inf_pos)"
| "mult Inf_pos (Fin b) = (if b = 0 then NaN else if 0 < b then Inf_pos else Inf_neg)"
| "mult Inf_neg (Fin b) = (if b = 0 then NaN else if 0 < b then Inf_neg else Inf_pos)"
| "mult Inf_pos Inf_pos = Inf_pos"
| "mult Inf_pos Inf_neg = Inf_neg"
| "mult Inf_neg Inf_pos = Inf_neg"
| "mult Inf_neg Inf_neg = Inf_pos"

text \<open>\<open>x < y\<close>: false as soon as one side is \<open>NaN\<close>.\<close>

fun menor :: "numero \<Rightarrow> numero \<Rightarrow> bool" where
  "menor (Fin a) (Fin b) = (a < b)"
| "menor NaN y = False"
| "menor x NaN = False"
| "menor Inf_pos y = False"
| "menor x Inf_pos = True"
| "menor x Inf_neg = False"
| "menor Inf_neg y = True"

text \<open>\<open>x >= 0\<close>\<close>

fun no_negativo :: "numero \<Rightarrow> bool" where
  "no_negativo (Fin a) = (0 \<le> a)"
| "no_negativo Inf_pos = True"
| "no_negativo Inf_neg = False"
| "no_negativo NaN = False"

section \<open>Data model (the Mongoose schemas of server.js)\<close>

text \<open>
  An ObjectId is an opaque identifier. An id of a request body is a string, which
  either is the text of an ObjectId or does not cast to one. Documents are records
  with the fields of their schema; where two schemas share a field name the later one
  carries a prefix.
\<close>

type_synonym oid = nat

datatype ref = Ref oid | No_castable

record producto =
  nombre :: string
  descripcion :: string
  precio :: numero
  cantidad :: numero

record factura =
  fac_id :: oid
  fecha :: nat
  clienteId :: oid
  total :: numero

record detalleFactura =
  facturaId :: oid
  productoId :: oid
  df_cantidad :: numero
  df_precio :: numero

text \<open>The body of POST /facturas: \<open>{ clienteId, detalles: [{productoId, cantidad, precio}] }\<close>.\<close>

record detalle =
  det_productoId :: ref
  det_cantidad :: numero
  det_precio :: numero

record cuerpo_factura =
  b_clienteId :: ref
  detalles :: "detalle list"

text \<open>The collections the handlers read and write.\<close>

record db =
  productos :: "oid \<rightharpoonup> producto"
  facturas :: "factura list"
  detallesFactura :: "detalleFactura list"

section \<open>Responses\<close>

text \<open>
  Every failure is answered with \<open>{ error: message }\<close>; the messages are the string
  literals and templates of the source, with the interpolated value as argument, and
  the messages of the errors that Mongoose raises.
\<close>

datatype mensaje =
    Producto_no_encontrado oid
  | No_hay_suficiente_stock string
  | Validacion_fallida
  | Cast_fallido
  | No_se_proporciono_token
  | Token_invalido
  | No_autorizado

datatype cuerpo =
    Json_error mensaje
  | Json_factura factura
  | Json_factura_detalles "factura option" "detalleFactura list"
  | Json_producto "producto option"
  | Json_productos "oid \<rightharpoonup> producto"
  | Json_eliminado

record respuesta =
  estado :: nat
  cuerpo :: cuerpo

text \<open>\<open>res.status(s).json({ error: m })\<close> and \<open>res.json(x)\<close> (status 200).\<close>

definition error_json :: "nat \<Rightarrow> mensaje \<Rightarrow> respuesta" where
  "error_json s m = \<lparr>estado = s, cuerpo = Json_error m\<rparr>"

definition json :: "cuerpo \<Rightarrow> respuesta" where
  "json c = \<lparr>estado = 200, cuerpo = c\<rparr>"

section \<open>Saving a product\<close>

text \<open>
  \<open>productoSchema\<close> declares \<open>cantidad: { type: Number, min: 0 }\<close>. Mongoose casts
  a value assigned to a \<open>Number\<close> path, which fails for \<open>NaN\<close>, and runs the schema
  validators on \<open>save()\<close>; a failed cast or validation rejects, and the handler's
  \<open>catch\<close> answers 500.
\<close>

definition validar_cantidad :: "numero \<Rightarrow> bool" where
  "validar_cantidad c = no_negativo c"

definition validar_producto :: "producto \<Rightarrow> bool" where
  "validar_producto p = (precio p \<noteq> NaN \<and> validar_cantidad (cantidad p))"

section \<open>POST /facturas\<close>

text \<open>
  The first loop of the handler: look each product up, check the stock, add to the
  total, decrement and save. \<open>findById\<close> rejects on an id that does not cast, and
  \<open>save()\<close> on a quantity that does not validate; the \<open>catch\<close> answers 500. An
  early \<open>return res.status(400)...\<close> leaves the loop with the response. In each
  case the products saved so far stay saved.
\<close>

fun calcular_total ::
  "(oid \<rightharpoonup> producto) \<Rightarrow> numero \<Rightarrow> detalle list \<Rightarrow> (respuesta + numero) \<times> (oid \<rightharpoonup> producto)" where
  "calcular_total ps tot [] = (Inr tot, ps)"
| "calcular_total ps tot (d # resto) =
    (case det_productoId d of
       No_castable \<Rightarrow> (Inl (error_json 500 Cast_fallido), ps)
     | Ref i \<Rightarrow>
        (case ps i of
           None \<Rightarrow> (Inl (error_json 400 (Producto_no_encontrado i)), ps)
         | Some p \<Rightarrow>
             if menor (cantidad p) (det_cantidad d)
             then (Inl (error_json 400 (No_hay_suficiente_stock (nombre p))), ps)
             else
               let c = resta (cantidad p) (det_cantidad d) in
               if validar_cantidad c
               then calcular_total (ps(i \<mapsto> p\<lparr>cantidad := c\<rparr>))
                      (suma tot (mult (precio p) (det_cantidad d))) resto
               else (Inl (error_json 500 Validacion_fallida), ps)))"

text \<open>
  \<open>new DetalleFactura({ facturaId, productoId, cantidad, precio })\<close>: the document
  of a line, or nothing when one of its values does not cast.
\<close>

definition documento :: "oid \<Rightarrow> detalle \<Rightarrow> detalleFactura option" where
  "documento fid d =
     (case det_productoId d of
        No_castable \<Rightarrow> None
      | Ref i \<Rightarrow>
          if det_cantidad d = NaN \<or> det_precio d = NaN then None
          else Some \<lparr>facturaId = fid, productoId = i,
                     df_cantidad = det_cantidad d, df_precio = det_precio d\<rparr>)"

text \<open>
  The second loop: one DetalleFactura per entry of \<open>detalles\<close>, saved in order. A
  rejected \<open>save()\<close> ends it with 500; the lines saved before stay saved.
\<close>

fun guardar_detalles ::
  "oid \<Rightarrow> detalle list \<Rightarrow> detalleFactura list \<Rightarrow> respuesta option \<times> detalleFactura list" where
  "guardar_detalles fid [] guardados = (None, guardados)"
| "guardar_detalles fid (d # resto) guardados =
     (case documento fid d of
        None \<Rightarrow> (Some (error_json 500 Validacion_fallida), guardados)
      | Some x \<Rightarrow> guardar_detalles fid resto (guardados @ [x]))"

text \<open>
  The handler. \<open>nuevo_id\<close> is the ObjectId generated for the new Factura and
  \<open>ahora\<close> the value of \<open>Date.now\<close>; both come from the environment.
  \<open>nuevaFactura.save()\<close> rejects when \<open>clienteId\<close> or \<open>total\<close> does not cast.
\<close>

definition post_facturas :: "oid \<Rightarrow> nat \<Rightarrow> db \<Rightarrow> cuerpo_factura \<Rightarrow> respuesta \<times> db" where
  "post_facturas nuevo_id ahora d body =
     (case calcular_total (productos d) (Fin 0) (detalles body) of
        (Inl r, ps) \<Rightarrow> (r, d\<lparr>productos := ps\<rparr>)
      | (Inr tot, ps) \<Rightarrow>
          (case b_clienteId body of
             No_castable \<Rightarrow> (error_json 500 Validacion_fallida, d\<lparr>productos := ps\<rparr>)
           | Ref c \<Rightarrow>
               if tot = NaN then (error_json 500 Validacion_fallida, d\<lparr>productos := ps\<rparr>)
               else
                 let nuevaFactura = \<lparr>fac_id = nuevo_id, fecha = ahora, clienteId = c, total = tot\<rparr>
                 in (case guardar_detalles nuevo_id (detalles body) (detallesFactura d) of
                       (Some r, ls) \<Rightarrow>
                         (r, d\<lparr>productos := ps, facturas := facturas d @ [nuevaFactura],
                               detallesFactura := ls\<rparr>)
                     | (None, ls) \<Rightarrow>
                         (json (Json_factura nuevaFactura),
                          d\<lparr>productos := ps, facturas := facturas d @ [nuevaFactura],
                            detallesFactura := ls\<rparr>))))"

text \<open>GET /facturas/:id answers \<open>{ factura, detalles }\<close>.\<close>

definition get_factura :: "db \<Rightarrow> oid \<Rightarrow> respuesta" where
  "get_factura d fid =
     json (Json_factura_detalles (find (\<lambda>f. fac_id f = fid) (facturas d))
             (filter (\<lambda>l. facturaId l = fid) (detallesFactura d)))"

section \<open>Products: the handlers behind the role gate\<close>

text \<open>GET /productos: \<open>Producto.find()\<close>.\<close>

definition get_productos :: "db \<Rightarrow> respuesta \<times> db" where
  "get_productos d = (json (Json_productos (productos d)), d)"

text \<open>
  POST /productos: \<open>new Producto(req.body).save()\<close>, validated by the schema; the
  document gets the generated id \<open>nuevo_id\<close>.
\<close>

definition post_productos :: "oid \<Rightarrow> producto \<Rightarrow> db \<Rightarrow> respuesta \<times> db" where
  "post_productos nuevo_id body d =
     (if validar_producto body
      then (json (Json_producto (Some body)), d\<lparr>productos := (productos d)(nuevo_id \<mapsto> body)\<rparr>)
      else (error_json 500 Validacion_fallida, d))"

text \<open>
  PUT /productos/:id: \<open>Producto.findByIdAndUpdate(req.params.id, req.body, { new: true })\<close>.
  The body holds any subset of the fields. Mongoose casts the values of the update,
  which rejects on \<open>NaN\<close>, but runs no schema validator on an update unless
  \<open>runValidators\<close> is set, and the handler sets only \<open>new\<close>; the answer is the
  updated document, or \<open>null\<close> when the id is unknown.
\<close>

record cambios =
  c_nombre :: "string option"
  c_descripcion :: "string option"
  c_precio :: "numero option"
  c_cantidad :: "numero option"

definition aplicar_cambios :: "cambios \<Rightarrow> producto \<Rightarrow> producto" where
  "aplicar_cambios c p =
     \<lparr>nombre = (case c_nombre c of None \<Rightarrow> nombre p | Some v \<Rightarrow> v),
      descripcion = (case c_descripcion c of None \<Rightarrow> descripcion p | Some v \<Rightarrow> v),
      precio = (case c_precio c of None \<Rightarrow> precio p | Some v \<Rightarrow> v),
      cantidad = (case c_cantidad c of None \<Rightarrow> cantidad p | Some v \<Rightarrow> v)\<rparr>"

definition put_producto :: "oid \<Rightarrow> cambios \<Rightarrow> db \<Rightarrow> respuesta \<times> db" where
  "put_producto i body d =
     (if c_precio body = Some NaN \<or> c_cantidad body = Some NaN
      then (error_json 500 Cast_fallido, d)
      else
        (case productos d i of
           None \<Rightarrow> (json (Json_producto None), d)
         | Some p \<Rightarrow>
             (json (Json_producto (Some (aplicar_cambios body p))),
              d\<lparr>productos := (productos d)(i \<mapsto> aplicar_cambios body p)\<rparr>)))"

text \<open>DELETE /productos/:id: \<open>Producto.findByIdAndDelete(req.params.id)\<close>.\<close>

definition delete_producto :: "oid \<Rightarrow> db \<Rightarrow> respuesta \<times> db" where
  "delete_producto i d = (json Json_eliminado, d\<lparr>productos := (productos d)(i := None)\<rparr>)"

section \<open>middleware/auth.js\<close>

text \<open>
  \<open>String.prototype.split\<close> with a one-character separator: the pieces between the
  separators, empty pieces included; never the empty list.
\<close>

fun split_js :: "char \<Rightarrow> string \<Rightarrow> string list" where
  "split_js c [] = [[]]"
| "split_js c (x # xs) =
     (if x = c then [] # split_js c xs
      else (case split_js c xs of
              [] \<Rightarrow> [[x]]
            | w # ws \<Rightarrow> (x # w) # ws))"

text \<open>
  \<open>req.headers['authorization']?.split(' ')[1]\<close>: \<open>None\<close> stands for
  \<open>undefined\<close>, which is what a missing header and a missing second piece give.
\<close>

definition token_de :: "string option \<Rightarrow> string option" where
  "token_de authorization =
     (case authorization of
        None \<Rightarrow> None
      | Some h \<Rightarrow> (case split_js (CHR '' '') h of
                    _ # t # _ \<Rightarrow> Some t
                  | _ \<Rightarrow> None))"

text \<open>The decoded payload that \<open>jwt.verify\<close> hands to its callback.\<close>

record usuario =
  userId :: oid
  role :: string

text \<open>A middleware either answers the request or calls \<open>next()\<close>.\<close>

datatype 'a paso = Responde respuesta | Next 'a

text \<open>
  \<open>verify t\<close> stands for \<open>jwt.verify(t, SECRET_KEY, ...)\<close>: \<open>None\<close> when the
  callback gets an error, the payload otherwise. \<open>!token\<close> holds for \<open>undefined\<close>
  and for the empty string.
\<close>

definition authenticateToken :: "(string \<Rightarrow> usuario option) \<Rightarrow> string option \<Rightarrow> usuario paso" where
  "authenticateToken verify authorization =
     (case token_de authorization of
        None \<Rightarrow> Responde (error_json 401 No_se_proporciono_token)
      | Some t \<Rightarrow>
          if t = [] then Responde (error_json 401 No_se_proporciono_token)
          else (case verify t of
                  None \<Rightarrow> Responde (error_json 403 Token_invalido)
                | Some user \<Rightarrow> Next user))"

definition authorizeRoles :: "string list \<Rightarrow> usuario \<Rightarrow> usuario paso" where
  "authorizeRoles roles user =
     (if role user \<notin> set roles then Responde (error_json 403 No_autorizado)
      else Next user)"

text \<open>
  A route registered as \<open>app.METHOD(path, authenticateToken, authorizeRoles(...), handler)\<close>:
  the handler runs only when both middlewares call \<open>next()\<close>.
\<close>

definition protegida ::
  "(string \<Rightarrow> usuario option) \<Rightarrow> string list \<Rightarrow> (db \<Rightarrow> respuesta \<times> db) \<Rightarrow>
   string option \<Rightarrow> db \<Rightarrow> respuesta \<times> db" where
  "protegida verify roles handler authorization d =
     (case authenticateToken verify authorization of
        Responde r \<Rightarrow> (r, d)
      | Next user \<Rightarrow>
          (case authorizeRoles roles user of
             Responde r \<Rightarrow> (r, d)
           | Next _ \<Rightarrow> handler d))"

definition ruta_get_productos ::
  "(string \<Rightarrow> usuario option) \<Rightarrow> string option \<Rightarrow> db \<Rightarrow> respuesta \<times> db" where
  "ruta_get_productos verify =
     protegida verify [''facturador'', ''gestionador'', ''admin''] get_productos"

definition ruta_post_productos ::
  "(string \<Rightarrow> usuario option) \<Rightarrow> oid \<Rightarrow> producto \<Rightarrow> string option \<Rightarrow> db \<Rightarrow> respuesta \<times> db" where
  "ruta_post_productos verify nuevo_id body =
     protegida verify [''gestionador'', ''admin''] (post_productos nuevo_id body)"

definition ruta_put_producto ::
  "(string \<Rightarrow> usuario option) \<Rightarrow> oid \<Rightarrow> cambios \<Rightarrow> string option \<Rightarrow> db \<Rightarrow> respuesta \<times> db" where
  "ruta_put_producto verify i body = protegida verify [''admin''] (put_producto i body)"

definition ruta_delete_producto ::
  "(string \<Rightarrow> usuario option) \<Rightarrow> oid \<Rightarrow> string option \<Rightarrow> db \<Rightarrow> respuesta \<times> db" where
  "ruta_delete_producto verify i = protegida verify [''admin''] (delete_producto i)"

section \<open>Vocabulary of the properties\<close>

text \<open>The integer that a number holds, and whether it holds one.\<close>

fun ent :: "numero \<Rightarrow> int" where
  "ent (Fin a) = a"
| "ent x = 0"

fun entero :: "numero \<Rightarrow> bool" where
  "entero (Fin a) = True"
| "entero x = False"

text \<open>
  The integers of magnitude below \<open>2 ^ 53\<close>: each is a double, and a sum, difference
  or product of integers that lands among them is computed exactly.
\<close>

definition seguro :: "int \<Rightarrow> bool" where
  "seguro n = (\<bar>n\<bar> < 9007199254740992)"

text \<open>The quantity that the lines \<open>ds\<close> request of product \<open>i\<close>, all lines together.\<close>

fun cantidad_pedida :: "oid \<Rightarrow> detalle list \<Rightarrow> int" where
  "cantidad_pedida i [] = 0"
| "cantidad_pedida i (d # ds) =
     (if det_productoId d = Ref i then ent (det_cantidad d) else 0) + cantidad_pedida i ds"

text \<open>The sum over the lines of the stored unit price times the requested quantity.\<close>

fun importe :: "(oid \<rightharpoonup> producto) \<Rightarrow> detalle list \<Rightarrow> int" where
  "importe ps [] = 0"
| "importe ps (d # ds) =
     (case det_productoId d of
        No_castable \<Rightarrow> 0
      | Ref i \<Rightarrow> (case ps i of None \<Rightarrow> 0 | Some p \<Rightarrow> ent (precio p) * ent (det_cantidad d)))
     + importe ps ds"

text \<open>The products \<open>ps\<close> with the quantities requested by \<open>ds\<close> taken off.\<close>

fun menos :: "numero \<Rightarrow> int \<Rightarrow> numero" where
  "menos (Fin c) n = Fin (c - n)"
| "menos x n = x"

definition descontar :: "(oid \<rightharpoonup> producto) \<Rightarrow> detalle list \<Rightarrow> (oid \<rightharpoonup> producto)" where
  "descontar ps ds i =
     map_option (\<lambda>p. p\<lparr>cantidad := menos (cantidad p) (cantidad_pedida i ds)\<rparr>) (ps i)"

text \<open>
  A line taken alone passes the two checks of the loop on the products \<open>ps\<close>: its
  product exists and does not hold less than the line asks for.
\<close>

definition linea_valida :: "(oid \<rightharpoonup> producto) \<Rightarrow> detalle \<Rightarrow> bool" where
  "linea_valida ps d =
     (case det_productoId d of
        No_castable \<Rightarrow> False
      | Ref i \<Rightarrow> (case ps i of None \<Rightarrow> False | Some p \<Rightarrow> \<not> menor (cantidad p) (det_cantidad d)))"

text \<open>
  A line in its place, after the lines \<open>previas\<close>. It is covered when its product
  exists in \<open>ps\<close> and holds at least what the line asks for once the quantities of
  the earlier lines for the same product are taken off, quantities being integers.
\<close>

definition cubierta :: "(oid \<rightharpoonup> producto) \<Rightarrow> detalle list \<Rightarrow> detalle \<Rightarrow> bool" where
  "cubierta ps previas d =
     (case det_productoId d of
        No_castable \<Rightarrow> False
      | Ref i \<Rightarrow>
          (case ps i of
             None \<Rightarrow> False
           | Some p \<Rightarrow>
               entero (cantidad p) \<and> entero (det_cantidad d) \<and>
               ent (det_cantidad d) \<le> ent (cantidad p) - cantidad_pedida i previas))"

text \<open>
  The arithmetic of a line in its place is exact when its product exists, the stored
  quantity and price and the requested quantity are integers, and the quantity left,
  the amount of the line and the total up to the line are safe integers.
\<close>

definition exacta :: "(oid \<rightharpoonup> producto) \<Rightarrow> detalle list \<Rightarrow> detalle \<Rightarrow> bool" where
  "exacta ps previas d =
     (case det_productoId d of
        No_castable \<Rightarrow> False
      | Ref i \<Rightarrow>
          (case ps i of
             None \<Rightarrow> False
           | Some p \<Rightarrow>
               entero (cantidad p) \<and> entero (precio p) \<and> entero (det_cantidad d) \<and>
               seguro (ent (cantidad p) - cantidad_pedida i previas - ent (det_cantidad d)) \<and>
               seguro (ent (precio p) * ent (det_cantidad d)) \<and>
               seguro (importe ps (previas @ [d]))))"

text \<open>Every line of \<open>ds\<close>, in its place after \<open>previas\<close>, is covered and exact.\<close>

fun stock_suficiente :: "(oid \<rightharpoonup> producto) \<Rightarrow> detalle list \<Rightarrow> detalle list \<Rightarrow> bool" where
  "stock_suficiente ps previas [] = True"
| "stock_suficiente ps previas (d # ds) =
     (cubierta ps previas d \<and> exacta ps previas d \<and> stock_suficiente ps (previas @ [d]) ds)"

text \<open>Every line of \<open>ds\<close>, in its place after \<open>previas\<close>, is exact.\<close>

fun lineas_exactas :: "(oid \<rightharpoonup> producto) \<Rightarrow> detalle list \<Rightarrow> detalle list \<Rightarrow> bool" where
  "lineas_exactas ps previas [] = True"
| "lineas_exactas ps previas (d # ds) =
     (exacta ps previas d \<and> lineas_exactas ps (previas @ [d]) ds)"





text \<open>The lines that a response body carries.\<close>

fun lineas_de :: "cuerpo \<Rightarrow> detalleFactura list option" where
  "lineas_de (Json_factura_detalles f ls) = Some ls"
| "lineas_de _ = None"

section \<open>Example data\<close>

text \<open>
  Two products, P (5 in stock at 10) and Q (1 in stock at 7), no invoice yet; request
  lines and bodies; three tokens \<open>a\<close>, \<open>g\<close>, \<open>f\<close>, one per role, every other
  token being rejected by the verification.
\<close>

definition producto_p :: producto where
  "producto_p = \<lparr>nombre = ''P'', descripcion = [], precio = Fin 10, cantidad = Fin 5\<rparr>"

definition producto_q :: producto where
  "producto_q = \<lparr>nombre = ''Q'', descripcion = [], precio = Fin 7, cantidad = Fin 1\<rparr>"

definition db_ej :: db where
  "db_ej = \<lparr>productos = [1 \<mapsto> producto_p, 2 \<mapsto> producto_q], facturas = [], detallesFactura = []\<rparr>"

definition linea :: "oid \<Rightarrow> int \<Rightarrow> int \<Rightarrow> detalle" where
  "linea i n pr = \<lparr>det_productoId = Ref i, det_cantidad = Fin n, det_precio = Fin pr\<rparr>"

definition pedido :: "detalle list \<Rightarrow> cuerpo_factura" where
  "pedido ls = \<lparr>b_clienteId = Ref 9, detalles = ls\<rparr>"

definition verify_ej :: "string \<Rightarrow> usuario option" where
  "verify_ej t =
     (if t = ''a'' then Some \<lparr>userId = 1, role = ''admin''\<rparr>
      else if t = ''g'' then Some \<lparr>userId = 2, role = ''gestionador''\<rparr>
      else if t = ''f'' then Some \<lparr>userId = 3, role = ''facturador''\<rparr>
      else None)"

definition solo_cantidad :: "int \<Rightarrow> cambios" where
  "solo_cantidad n =
     \<lparr>c_nombre = None, c_descripcion = None, c_precio = None, c_cantidad = Some (Fin n)\<rparr>"

section \<open>Arithmetic on safe integers\<close>

text \<open>
  An integer of magnitude below \<open>2 ^ 53\<close> is its own double, so an operation whose
  exact result is such an integer returns it; above, results are rounded.
\<close>

lemma redondear_seguro: "seguro n \<Longrightarrow> redondear n = Fin n"
  by (simp add: seguro_def redondear_def)

lemma entero_ent: "entero x \<Longrightarrow> x = Fin (ent x)"
  by (cases x) simp_all

lemma resta_Fin: "resta (Fin a) (Fin b) = redondear (a - b)"
  by (simp add: resta_def)

lemma redondear_pequeno: "\<bar>n\<bar> < 9007199254740992 \<Longrightarrow> redondear n = Fin n"
  by (simp add: redondear_def)

lemma mult_redondea: "mult (Fin 9007199254740991) (Fin 3) = Fin 27021597764222972"
  by (simp add: redondear_def Let_def escala.simps [of 27021597764222973]
        escala.simps [of 13510798882111486] escala.simps [of 6755399441055743])

lemma resta_redondea: "resta (Fin 9007199254740996) (Fin 1) = Fin 9007199254740996"
  by (simp add: resta_def redondear_def Let_def escala.simps [of 9007199254740995]
        escala.simps [of 4503599627370497])

lemma redondear_representable: "redondear 27021597764222972 = Fin 27021597764222972"
  by (simp add: redondear_def Let_def escala.simps [of 27021597764222972]
        escala.simps [of 13510798882111486] escala.simps [of 6755399441055743])

section \<open>The first loop of POST /facturas\<close>

text \<open>
  While the lines are covered and exact, the loop holds the products with the
  requested quantities taken off and the amount of the lines so far.
\<close>

lemma cantidad_pedida_append:
  "cantidad_pedida i (xs @ ys) = cantidad_pedida i xs + cantidad_pedida i ys"
  by (induction xs) auto

lemma importe_append: "importe ps (xs @ ys) = importe ps xs + importe ps ys"
  by (induction xs) auto

lemma menos_0: "menos x 0 = x"
  by (cases x) simp_all

lemma descontar_Nil: "descontar ps [] = ps"
  by (rule ext) (simp add: descontar_def menos_0 option.map_ident)

lemma descontar_snoc:
  assumes "det_productoId d = Ref i" and "ps i = Some p" and "cantidad p = Fin c"
    and "det_cantidad d = Fin q"
  shows "(descontar ps pre)(i \<mapsto>
           p\<lparr>cantidad := Fin (c - cantidad_pedida i pre - q)\<rparr>)
         = descontar ps (pre @ [d])"
  using assms by (auto simp: descontar_def cantidad_pedida_append fun_eq_iff)

lemma calcular_total_suficiente:
  "stock_suficiente ps pre ds \<Longrightarrow>
   calcular_total (descontar ps pre) (Fin (importe ps pre)) ds
     = (Inr (Fin (importe ps (pre @ ds))), descontar ps (pre @ ds))"
proof (induction ds arbitrary: pre)
  case Nil
  then show ?case by simp
next
  case (Cons d ds)
  from Cons.prems have cub: "cubierta ps pre d" and ex: "exacta ps pre d"
    and rest: "stock_suficiente ps (pre @ [d]) ds"
    by simp_all
  from ex obtain i p where i: "det_productoId d = Ref i" and p: "ps i = Some p"
    and ec: "entero (cantidad p)" and ep: "entero (precio p)" and eq: "entero (det_cantidad d)"
    and s1: "seguro (ent (cantidad p) - cantidad_pedida i pre - ent (det_cantidad d))"
    and s2: "seguro (ent (precio p) * ent (det_cantidad d))"
    and s3: "seguro (importe ps (pre @ [d]))"
    by (auto simp: exacta_def split: ref.splits option.splits)
  obtain c pr q where c: "cantidad p = Fin c" and pr: "precio p = Fin pr"
    and q: "det_cantidad d = Fin q"
    using entero_ent [OF ec] entero_ent [OF ep] entero_ent [OF eq] by blast
  from cub i p c q have le: "q \<le> c - cantidad_pedida i pre"
    by (simp add: cubierta_def)
  have look: "descontar ps pre i = Some (p\<lparr>cantidad := Fin (c - cantidad_pedida i pre)\<rparr>)"
    using p c by (simp add: descontar_def)
  have imp: "importe ps (pre @ [d]) = importe ps pre + pr * q"
    using i p pr q by (simp add: importe_append)
  have r1: "resta (Fin (c - cantidad_pedida i pre)) (Fin q) = Fin (c - cantidad_pedida i pre - q)"
    using s1 c q by (simp add: resta_Fin redondear_seguro)
  have r2: "suma (Fin (importe ps pre)) (mult (Fin pr) (Fin q)) = Fin (importe ps (pre @ [d]))"
    using s2 s3 imp pr q by (simp add: redondear_seguro)
  have v: "validar_cantidad (Fin (c - cantidad_pedida i pre - q))"
    using le by (simp add: validar_cantidad_def)
  show ?case
    using le Cons.IH [OF rest] i p c q descontar_snoc [where d = d and i = i and ps = ps and p = p and c = c and q = q and pre = pre]
    by (simp add: i look c pr q r1 r2 v Let_def del: mult.simps suma.simps)
qed

lemma calcular_total_desde_inicio:
  "stock_suficiente ps [] ds \<Longrightarrow>
   calcular_total ps (Fin 0) ds = (Inr (Fin (importe ps ds)), descontar ps ds)"
  using calcular_total_suficiente [of ps "[]" ds] by (simp add: descontar_Nil)

lemma calcular_total_prefijo:
  assumes "stock_suficiente ps [] pre"
  shows "calcular_total ps (Fin 0) (pre @ resto)
       = calcular_total (descontar ps pre) (Fin (importe ps pre)) resto"
  using assms
proof -
  have "calcular_total ps t (xs @ ys) =
     (case calcular_total ps t xs of
        (Inl r, ps') \<Rightarrow> (Inl r, ps')
      | (Inr t', ps') \<Rightarrow> calcular_total ps' t' ys)" for ps t xs ys
    by (induction xs arbitrary: ps t) (auto simp: Let_def split: option.splits ref.splits)
  then show ?thesis
    using assms by (simp add: calcular_total_desde_inicio)
qed

lemma calcular_total_no_encontrado:
  assumes "stock_suficiente ps [] pre" and "det_productoId l = Ref i" and "ps i = None"
  shows "calcular_total ps (Fin 0) (pre @ l # resto)
       = (Inl (error_json 400 (Producto_no_encontrado i)), descontar ps pre)"
  using assms by (simp add: calcular_total_prefijo descontar_def)

lemma calcular_total_sin_stock:
  assumes "stock_suficiente ps [] pre" and "det_productoId l = Ref i" and "ps i = Some p"
    and "cantidad p = Fin c" and "det_cantidad l = Fin q"
    and "c - cantidad_pedida i pre < q"
  shows "calcular_total ps (Fin 0) (pre @ l # resto)
       = (Inl (error_json 400 (No_hay_suficiente_stock (nombre p))), descontar ps pre)"
  using assms by (simp add: calcular_total_prefijo descontar_def)

text \<open>
  Every answer of the loop other than a total is a 400 or a 500.
\<close>

lemma estado_error_json [simp]: "estado (error_json s m) = s" "cuerpo (error_json s m) = Json_error m"
  by (simp_all add: error_json_def)

lemma estado_json [simp]: "estado (json c) = 200" "cuerpo (json c) = c"
  by (simp_all add: json_def)

lemma calcular_total_Inl:
  "calcular_total ps t ds = (Inl r, ps') \<Longrightarrow> estado r = 400 \<or> estado r = 500"
  by (induction ds arbitrary: ps t)
     (auto simp: Let_def split: ref.splits option.splits if_splits)

text \<open>
  Several lines for one product: covered lines never ask, together, for more than
  the product holds; and among exact lines that are not all covered there is a first
  one that is not.
\<close>

lemma cantidad_pedida_ninguna:
  "\<forall>l\<in>set ds. det_productoId l \<noteq> Ref i \<Longrightarrow> cantidad_pedida i ds = 0"
  by (induction ds) auto

lemma stock_suficiente_combinada:
  "stock_suficiente ps pre ds \<Longrightarrow> ps i = Some p \<Longrightarrow> \<exists>l\<in>set ds. det_productoId l = Ref i \<Longrightarrow>
   cantidad_pedida i (pre @ ds) \<le> ent (cantidad p)"
proof (induction ds arbitrary: pre)
  case Nil
  then show ?case by simp
next
  case (Cons d ds)
  from Cons.prems(1) have rest: "stock_suficiente ps (pre @ [d]) ds" by simp
  show ?case
  proof (cases "\<exists>l\<in>set ds. det_productoId l = Ref i")
    case True
    from Cons.IH [OF rest Cons.prems(2) True] show ?thesis by simp
  next
    case False
    with Cons.prems(3) have di: "det_productoId d = Ref i" by auto
    from False have "cantidad_pedida i ds = 0"
      by (intro cantidad_pedida_ninguna) blast
    moreover from Cons.prems(1,2) di
    have "ent (det_cantidad d) \<le> ent (cantidad p) - cantidad_pedida i pre"
      by (simp add: cubierta_def)
    ultimately show ?thesis using di by (simp add: cantidad_pedida_append)
  qed
qed

lemma primera_no_cubierta:
  "lineas_exactas ps pre ds \<Longrightarrow> \<not> stock_suficiente ps pre ds \<Longrightarrow>
   \<exists>xs l rest. ds = xs @ l # rest \<and> stock_suficiente ps pre xs \<and>
     exacta ps (pre @ xs) l \<and> \<not> cubierta ps (pre @ xs) l"
proof (induction ds arbitrary: pre)
  case Nil
  then show ?case by simp
next
  case (Cons d ds)
  from Cons.prems(1) have ex: "exacta ps pre d" and rest: "lineas_exactas ps (pre @ [d]) ds"
    by simp_all
  show ?case
  proof (cases "cubierta ps pre d")
    case False
    with ex show ?thesis
      by (intro exI [of _ "[]"] exI [of _ d] exI [of _ ds]) simp
  next
    case True
    with ex Cons.prems(2) have "\<not> stock_suficiente ps (pre @ [d]) ds" by simp
    from Cons.IH [OF rest this] obtain xs l rest' where
      "ds = xs @ l # rest'" "stock_suficiente ps (pre @ [d]) xs"
      "exacta ps ((pre @ [d]) @ xs) l" "\<not> cubierta ps ((pre @ [d]) @ xs) l"
      by blast
    with True ex show ?thesis
      by (intro exI [of _ "d # xs"] exI [of _ l] exI [of _ rest']) simp
  qed
qed



text \<open>
  The loop saves a quantity only when it validates, so it keeps the stored quantities
  non-negative.
\<close>

lemma calcular_total_no_negativo:
  "calcular_total ps t ds = (res, ps') \<Longrightarrow>
   (\<And>j q. ps j = Some q \<Longrightarrow> no_negativo (cantidad q)) \<Longrightarrow>
   ps' i = Some p \<Longrightarrow> no_negativo (cantidad p)"
proof (induction ds arbitrary: ps t)
  case Nil
  then show ?case by simp
next
  case (Cons d ds)
  show ?case
  proof (cases "\<exists>j q. det_productoId d = Ref j \<and> ps j = Some q \<and>
      \<not> menor (cantidad q) (det_cantidad d) \<and>
      validar_cantidad (resta (cantidad q) (det_cantidad d))")
    case False
    with Cons.prems(1) have "ps' = ps"
      by (auto simp: Let_def split: ref.splits option.splits if_splits)
    with Cons.prems show ?thesis by simp
  next
    case True
    then obtain j q where j: "det_productoId d = Ref j" and q: "ps j = Some q"
      and m: "\<not> menor (cantidad q) (det_cantidad d)"
      and v: "validar_cantidad (resta (cantidad q) (det_cantidad d))" by blast
    with Cons.prems(1) have
      rest: "calcular_total (ps(j \<mapsto> q\<lparr>cantidad := resta (cantidad q) (det_cantidad d)\<rparr>))
        (suma t (mult (precio q) (det_cantidad d))) ds = (res, ps')"
      by (simp add: Let_def)
    show ?thesis
    proof (rule Cons.IH [OF rest _ Cons.prems(3)])
      fix k x
      assume "(ps(j \<mapsto> q\<lparr>cantidad := resta (cantidad q) (det_cantidad d)\<rparr>)) k = Some x"
      with v Cons.prems(2) show "no_negativo (cantidad x)"
        by (cases "k = j") (auto simp: validar_cantidad_def)
    qed
  qed
qed

section \<open>The second loop and the handler\<close>

lemma documento_Some:
  "documento fid l = Some x \<Longrightarrow>
   det_productoId l = Ref (productoId x) \<and> facturaId x = fid \<and>
   df_cantidad x = det_cantidad l \<and> df_precio x = det_precio l"
  by (auto simp: documento_def split: ref.splits if_splits)

lemma guardar_detalles_Some:
  "guardar_detalles fid ls acc = (Some r, out) \<Longrightarrow> estado r = 500"
  by (induction ls arbitrary: acc) (auto split: option.splits)

lemma guardar_detalles_None:
  "guardar_detalles fid ls acc = (None, out) \<Longrightarrow>
   \<exists>docs. out = acc @ docs \<and> map (documento fid) ls = map Some docs"
proof (induction ls arbitrary: acc)
  case Nil
  then show ?case by simp
next
  case (Cons l ls)
  from Cons.prems obtain x where x: "documento fid l = Some x"
    and rest: "guardar_detalles fid ls (acc @ [x]) = (None, out)"
    by (auto split: option.splits)
  from Cons.IH [OF rest] obtain docs where "out = (acc @ [x]) @ docs"
    and "map (documento fid) ls = map Some docs" by blast
  with x show ?case by (intro exI [of _ "x # docs"]) simp
qed

lemma guardar_detalles_todas:
  "\<forall>l\<in>set ls. documento fid l \<noteq> None \<Longrightarrow>
   \<exists>docs. guardar_detalles fid ls acc = (None, acc @ docs) \<and>
          map (documento fid) ls = map Some docs"
proof (induction ls arbitrary: acc)
  case Nil
  then show ?case by simp
next
  case (Cons l ls)
  from Cons.prems obtain x where x: "documento fid l = Some x" by auto
  from Cons.prems have "\<forall>l\<in>set ls. documento fid l \<noteq> None" by simp
  from Cons.IH [OF this, of "acc @ [x]"] obtain docs where
    "guardar_detalles fid ls (acc @ [x]) = (None, (acc @ [x]) @ docs)"
    "map (documento fid) ls = map Some docs" by blast
  with x show ?case by (intro exI [of _ "x # docs"]) simp
qed

lemma documentos_lineas:
  "map (documento fid) ls = map Some docs \<Longrightarrow>
   list_all2 (\<lambda>l x. det_productoId l = Ref (productoId x) \<and> facturaId x = fid \<and>
                    df_cantidad x = det_cantidad l \<and> df_precio x = det_precio l) ls docs"
proof (induction ls arbitrary: docs)
  case Nil
  then show ?case by simp
next
  case (Cons l ls)
  then obtain x xs where docs: "docs = x # xs" and x: "documento fid l = Some x"
    and xs: "map (documento fid) ls = map Some xs"
    by (cases docs) auto
  from Cons.IH [OF xs] documento_Some [OF x] docs show ?case by simp
qed


text \<open>
  An answer 200 comes from the one branch where the loop gave a total, the customer
  id and the total cast, and every line was saved.
\<close>

lemma post_facturas_200:
  assumes "estado (fst (post_facturas nid now d body)) = 200"
  shows "\<exists>tot ps c docs.
     calcular_total (productos d) (Fin 0) (detalles body) = (Inr tot, ps) \<and>
     b_clienteId body = Ref c \<and> tot \<noteq> NaN \<and>
     map (documento nid) (detalles body) = map Some docs \<and>
     post_facturas nid now d body =
       (json (Json_factura \<lparr>fac_id = nid, fecha = now, clienteId = c, total = tot\<rparr>),
        d\<lparr>productos := ps,
          facturas := facturas d @ [\<lparr>fac_id = nid, fecha = now, clienteId = c, total = tot\<rparr>],
          detallesFactura := detallesFactura d @ docs\<rparr>)"
proof (cases "calcular_total (productos d) (Fin 0) (detalles body)")
  case (Pair res ps)
  show ?thesis
  proof (cases res)
    case (Inl r)
    with Pair assms calcular_total_Inl [of "productos d" "Fin 0" "detalles body" r ps]
    show ?thesis by (auto simp: post_facturas_def)
  next
    case (Inr tot)
    show ?thesis
    proof (cases "b_clienteId body")
      case No_castable
      with Pair Inr assms show ?thesis by (simp add: post_facturas_def)
    next
      case (Ref c)
      show ?thesis
      proof (cases "tot = NaN")
        case True
        with Pair Inr Ref assms show ?thesis by (simp add: post_facturas_def)
      next
        case False
        obtain r ls where g: "guardar_detalles nid (detalles body) (detallesFactura d) = (r, ls)"
          by (cases "guardar_detalles nid (detalles body) (detallesFactura d)")
        show ?thesis
        proof (cases r)
          case (Some e)
          with g guardar_detalles_Some [of nid "detalles body" "detallesFactura d" e ls]
            Pair Inr Ref False assms
          show ?thesis by (simp add: post_facturas_def Let_def)
        next
          case None
          with g guardar_detalles_None [of nid "detalles body" "detallesFactura d" ls]
          obtain docs where "ls = detallesFactura d @ docs"
            "map (documento nid) (detalles body) = map Some docs" by blast
          with g None Pair Inr Ref False show ?thesis
            by (simp add: post_facturas_def Let_def)
        qed
      qed
    qed
  qed
qed


lemma post_facturas_productos:
  "productos (snd (post_facturas nid now d body))
     = snd (calcular_total (productos d) (Fin 0) (detalles body))"
  by (auto simp: post_facturas_def Let_def split: prod.splits sum.splits ref.splits option.splits)

text \<open>
  A request whose lines are all covered and exact, with a customer id and prices
  that cast, is served in full.
\<close>

lemma stock_suficiente_documento:
  "stock_suficiente ps pre ds \<Longrightarrow> l \<in> set ds \<Longrightarrow> det_precio l \<noteq> NaN \<Longrightarrow>
   documento fid l \<noteq> None"
proof (induction ds arbitrary: pre)
  case Nil
  then show ?case by simp
next
  case (Cons d ds)
  show ?case
  proof (cases "l = d")
    case True
    from Cons.prems(1) have "cubierta ps pre d" by simp
    then obtain i where "det_productoId d = Ref i" "entero (det_cantidad d)"
      by (auto simp: cubierta_def split: ref.splits option.splits)
    with True Cons.prems(3) show ?thesis
      by (cases "det_cantidad d") (simp_all add: documento_def)
  next
    case False
    with Cons.prems have "l \<in> set ds" "stock_suficiente ps (pre @ [d]) ds" by simp_all
    from Cons.IH [OF this(2) this(1) Cons.prems(3)] show ?thesis .
  qed
qed

lemma post_facturas_ok:
  assumes "b_clienteId body = Ref c"
    and "\<forall>l\<in>set (detalles body). det_precio l \<noteq> NaN"
    and "stock_suficiente (productos d) [] (detalles body)"
  shows "\<exists>docs. post_facturas nid now d body =
     (json (Json_factura \<lparr>fac_id = nid, fecha = now, clienteId = c,
                           total = Fin (importe (productos d) (detalles body))\<rparr>),
      d\<lparr>productos := descontar (productos d) (detalles body),
        facturas := facturas d @ [\<lparr>fac_id = nid, fecha = now, clienteId = c,
                           total = Fin (importe (productos d) (detalles body))\<rparr>],
        detallesFactura := detallesFactura d @ docs\<rparr>)"
proof -
  have "\<forall>l\<in>set (detalles body). documento nid l \<noteq> None"
    using assms(2,3) stock_suficiente_documento by blast
  from guardar_detalles_todas [OF this, of "detallesFactura d"] obtain docs where
    "guardar_detalles nid (detalles body) (detallesFactura d) = (None, detallesFactura d @ docs)"
    by blast
  with assms(1) calcular_total_desde_inicio [OF assms(3)] show ?thesis
    by (auto simp: post_facturas_def Let_def)
qed

section \<open>Evaluation of the examples\<close>

lemmas ej_defs = producto_p_def producto_q_def db_ej_def linea_def pedido_def

lemmas run_defs = post_facturas_def validar_cantidad_def resta_def redondear_pequeno
  documento_def Let_def

lemmas prop_defs = cubierta_def exacta_def seguro_def descontar_def

lemma token_de_ejemplos:
  "token_de None = None"
  "token_de (Some ''Bearer'') = None"
  "token_de (Some ''Bearer '') = Some []"
  "token_de (Some ''Bearer x'') = Some ''x''"
  "token_de (Some ''Bearer a'') = Some ''a''"
  "token_de (Some ''Bearer g'') = Some ''g''"
  "token_de (Some ''Bearer f'') = Some ''f''"
  by (simp_all add: token_de_def)

section \<open>Properties of invoice creation\<close>

text \<open>
  C1, as the handler implements it. Take a request whose customer id casts to an
  ObjectId, whose lines carry prices that are numbers, and whose lines each reference
  an existing product that holds at least the quantity of the line once the quantities
  of the earlier lines of the same request for that product are taken off, all stored
  and requested numbers being integers and every quantity left, amount and partial
  total a safe integer (magnitude below \<open>2 ^ 53\<close>). POST /facturas answers with the
  new Factura and persists it; its total is the sum over the lines of the product's
  stored unit price times the requested quantity (the price sent by the caller plays
  no part), and every product's quantity goes down by exactly the quantity that the
  lines request of it.
\<close>

theorem post_facturas_total_y_stock:
  fixes d :: db and body :: cuerpo_factura and nid :: oid and now :: nat and c :: oid
  defines "r \<equiv> post_facturas nid now d body"
    and "f \<equiv> \<lparr>fac_id = nid, fecha = now, clienteId = c,
                 total = Fin (importe (productos d) (detalles body))\<rparr>"
  assumes "b_clienteId body = Ref c"
    and "\<forall>l\<in>set (detalles body). det_precio l \<noteq> NaN"
    and "stock_suficiente (productos d) [] (detalles body)"
  shows "fst r = json (Json_factura f)
       \<and> facturas (snd r) = facturas d @ [f]
       \<and> productos (snd r) = descontar (productos d) (detalles body)"
  using post_facturas_ok [OF assms(3,4,5), of nid now] unfolding r_def f_def by auto

text \<open>
  The property at a request of three lines over both products, two of them for P:
  total 3 * 10 + 1 * 7 + 2 * 10, and both stocks exhausted.
\<close>

theorem post_facturas_total_y_stock_witness:
  "b_clienteId (pedido [linea 1 3 10, linea 2 1 7, linea 1 2 10]) = Ref 9
   \<and> stock_suficiente (productos db_ej) [] [linea 1 3 10, linea 2 1 7, linea 1 2 10]
   \<and> fst (post_facturas 100 0 db_ej (pedido [linea 1 3 10, linea 2 1 7, linea 1 2 10]))
       = json (Json_factura \<lparr>fac_id = 100, fecha = 0, clienteId = 9, total = Fin 57\<rparr>)
   \<and> map_option cantidad (productos (snd (post_facturas 100 0 db_ej
        (pedido [linea 1 3 10, linea 2 1 7, linea 1 2 10]))) 1) = Some (Fin 0)
   \<and> map_option cantidad (productos (snd (post_facturas 100 0 db_ej
        (pedido [linea 1 3 10, linea 2 1 7, linea 1 2 10]))) 2) = Some (Fin 0)"
proof -
  have a: "b_clienteId (pedido [linea 1 3 10, linea 2 1 7, linea 1 2 10]) = Ref 9"
    by (simp add: pedido_def)
  have b: "\<forall>l\<in>set (detalles (pedido [linea 1 3 10, linea 2 1 7, linea 1 2 10])).
             det_precio l \<noteq> NaN"
    by (simp add: ej_defs)
  have h: "stock_suficiente (productos db_ej) []
             (detalles (pedido [linea 1 3 10, linea 2 1 7, linea 1 2 10]))"
    by (simp add: ej_defs prop_defs)
  show ?thesis
    using a h post_facturas_total_y_stock [OF a b h, of 100 0]
    by (simp add: ej_defs descontar_def)
qed

text \<open>
  C1 read line by line does not hold: P holds 5, each of two lines asks for 3 of P,
  so each line alone is covered by the stock; the second line is refused and no
  Factura is persisted.
\<close>

theorem post_facturas_lineas_repetidas:
  "list_all (linea_valida (productos db_ej)) [linea 1 3 10, linea 1 3 10]
   \<and> fst (post_facturas 100 0 db_ej (pedido [linea 1 3 10, linea 1 3 10]))
       = error_json 400 (No_hay_suficiente_stock ''P'')
   \<and> facturas (snd (post_facturas 100 0 db_ej (pedido [linea 1 3 10, linea 1 3 10]))) = []"
  by (simp add: ej_defs linea_valida_def run_defs)

text \<open>
  The two other conditions. Above the safe integers the total is the rounded one:
  three units at the price 9007199254740991 give 27021597764222972, one less than the
  sum. And a customer id that does not cast makes \<open>nuevaFactura.save()\<close> reject: the
  answer is 500, after the stock of the served lines was saved.
\<close>

lemma post_facturas_total_redondeado:
  "fst (post_facturas 100 0
          \<lparr>productos = [1 \<mapsto> \<lparr>nombre = ''P'', descripcion = [],
                                precio = Fin 9007199254740991, cantidad = Fin 5\<rparr>],
           facturas = [], detallesFactura = []\<rparr>
          (pedido [linea 1 3 10]))
     = json (Json_factura \<lparr>fac_id = 100, fecha = 0, clienteId = 9,
                            total = Fin 27021597764222972\<rparr>)"
  by (simp add: ej_defs run_defs mult_redondea redondear_representable del: mult.simps)

lemma post_facturas_cliente_no_castable:
  "fst (post_facturas 100 0 db_ej \<lparr>b_clienteId = No_castable, detalles = [linea 1 3 10]\<rparr>)
     = error_json 500 Validacion_fallida
   \<and> map_option cantidad
        (productos (snd (post_facturas 100 0 db_ej
           \<lparr>b_clienteId = No_castable, detalles = [linea 1 3 10]\<rparr>)) 1) = Some (Fin 2)
   \<and> facturas (snd (post_facturas 100 0 db_ej
           \<lparr>b_clienteId = No_castable, detalles = [linea 1 3 10]\<rparr>)) = []"
  by (simp add: ej_defs run_defs)

text \<open>
  C2, as the handler implements it. When the lines before \<open>l\<close> are all covered and
  exact, and \<open>l\<close> asks, in integers, for more than its product holds once the earlier
  lines are taken off, POST /facturas answers 400 with the insufficient-stock message
  for that product; no Factura and no DetalleFactura is persisted, \<open>l\<close> and the later
  lines change nothing, and the decrements of the earlier lines stay saved: nothing is
  rolled back.
\<close>

theorem post_facturas_sin_stock:
  assumes "detalles body = previas @ l # resto"
    and "stock_suficiente (productos d) [] previas"
    and "det_productoId l = Ref i"
    and "productos d i = Some p"
    and "cantidad p = Fin c"
    and "det_cantidad l = Fin q"
    and "c - cantidad_pedida i previas < q"
  shows "post_facturas nid now d body =
     (error_json 400 (No_hay_suficiente_stock (nombre p)),
      d\<lparr>productos := descontar (productos d) previas\<rparr>)"
  using assms(1) calcular_total_sin_stock [OF assms(2-7), of resto]
  by (simp add: post_facturas_def)

text \<open>
  The property at a request whose second line asks for 2 of Q, which holds 1.
\<close>

theorem post_facturas_sin_stock_witness:
  "stock_suficiente (productos db_ej) [] [linea 1 3 10]
   \<and> productos db_ej 2 = Some producto_q
   \<and> cantidad producto_q = Fin 1
   \<and> 1 - cantidad_pedida 2 [linea 1 3 10] < 2
   \<and> fst (post_facturas 100 0 db_ej (pedido [linea 1 3 10, linea 2 2 7]))
       = error_json 400 (No_hay_suficiente_stock ''Q'')
   \<and> facturas (snd (post_facturas 100 0 db_ej (pedido [linea 1 3 10, linea 2 2 7]))) = []
   \<and> detallesFactura (snd (post_facturas 100 0 db_ej (pedido [linea 1 3 10, linea 2 2 7]))) = []
   \<and> map_option cantidad
        (productos (snd (post_facturas 100 0 db_ej (pedido [linea 1 3 10, linea 2 2 7]))) 1)
       = Some (Fin 2)"
proof -
  have a: "detalles (pedido [linea 1 3 10, linea 2 2 7]) = [linea 1 3 10] @ linea 2 2 7 # []"
    by (simp add: pedido_def)
  have b: "stock_suficiente (productos db_ej) [] [linea 1 3 10]"
    by (simp add: ej_defs prop_defs)
  have i: "det_productoId (linea 2 2 7) = Ref 2"
    by (simp add: linea_def)
  have p: "productos db_ej 2 = Some producto_q"
    by (simp add: ej_defs)
  have c: "cantidad producto_q = Fin 1"
    by (simp add: producto_q_def)
  have q: "det_cantidad (linea 2 2 7) = Fin 2"
    by (simp add: linea_def)
  have e: "1 - cantidad_pedida 2 [linea 1 3 10] < 2"
    by (simp add: linea_def)
  show ?thesis
    using b p c e post_facturas_sin_stock [OF a b i p c q e, of 100 0]
    by (simp add: ej_defs descontar_def)
qed

text \<open>
  C2 with its rollback does not hold: in the same request the first line took 3 of
  P before the second line failed, and P stays at 2 instead of 5.
\<close>

theorem post_facturas_sin_rollback:
  "fst (post_facturas 100 0 db_ej (pedido [linea 1 3 10, linea 2 2 7]))
     = error_json 400 (No_hay_suficiente_stock ''Q'')
   \<and> map_option cantidad (productos db_ej 1) = Some (Fin 5)
   \<and> map_option cantidad
        (productos (snd (post_facturas 100 0 db_ej (pedido [linea 1 3 10, linea 2 2 7]))) 1)
       = Some (Fin 2)"
  by (simp add: ej_defs run_defs)

text \<open>
  C3, as the handler implements it. When the lines before \<open>l\<close> are all covered and
  exact, and \<open>l\<close> references a product that does not exist, POST /facturas answers
  400 with the not-found message for that product; no Factura and no DetalleFactura is
  persisted, \<open>l\<close> and the later lines change nothing, and the decrements of the
  earlier lines stay saved. (When an earlier line lacks stock, that line decides the
  answer, as in C2.)
\<close>

theorem post_facturas_producto_inexistente:
  assumes "detalles body = previas @ l # resto"
    and "stock_suficiente (productos d) [] previas"
    and "det_productoId l = Ref i"
    and "productos d i = None"
  shows "post_facturas nid now d body =
     (error_json 400 (Producto_no_encontrado i),
      d\<lparr>productos := descontar (productos d) previas\<rparr>)"
  using assms(1) calcular_total_no_encontrado [OF assms(2-4), of resto]
  by (simp add: post_facturas_def)

text \<open>
  The property at a request whose second line references product 3, which does not
  exist.
\<close>

theorem post_facturas_producto_inexistente_witness:
  "stock_suficiente (productos db_ej) [] [linea 1 3 10]
   \<and> productos db_ej 3 = None
   \<and> fst (post_facturas 100 0 db_ej (pedido [linea 1 3 10, linea 3 1 1]))
       = error_json 400 (Producto_no_encontrado 3)
   \<and> facturas (snd (post_facturas 100 0 db_ej (pedido [linea 1 3 10, linea 3 1 1]))) = []
   \<and> detallesFactura (snd (post_facturas 100 0 db_ej (pedido [linea 1 3 10, linea 3 1 1]))) = []
   \<and> map_option cantidad
        (productos (snd (post_facturas 100 0 db_ej (pedido [linea 1 3 10, linea 3 1 1]))) 1)
       = Some (Fin 2)"
proof -
  have a: "detalles (pedido [linea 1 3 10, linea 3 1 1]) = [linea 1 3 10] @ linea 3 1 1 # []"
    by (simp add: pedido_def)
  have b: "stock_suficiente (productos db_ej) [] [linea 1 3 10]"
    by (simp add: ej_defs prop_defs)
  have i: "det_productoId (linea 3 1 1) = Ref 3"
    by (simp add: linea_def)
  have n: "productos db_ej 3 = None"
    by (simp add: ej_defs)
  show ?thesis
    using b n post_facturas_producto_inexistente [OF a b i n, of 100 0]
    by (simp add: ej_defs descontar_def)
qed

text \<open>
  C3 with no quantity changed does not hold: in the same request the first line
  took 3 of P before product 3 was looked up, and P stays at 2 instead of 5.
\<close>

theorem post_facturas_inexistente_sin_rollback:
  "fst (post_facturas 100 0 db_ej (pedido [linea 1 3 10, linea 3 1 1]))
     = error_json 400 (Producto_no_encontrado 3)
   \<and> map_option cantidad (productos db_ej 1) = Some (Fin 5)
   \<and> map_option cantidad
        (productos (snd (post_facturas 100 0 db_ej (pedido [linea 1 3 10, linea 3 1 1]))) 1)
       = Some (Fin 2)"
  by (simp add: ej_defs run_defs)




section \<open>Product quantities\<close>

text \<open>
  Creating an invoice and creating a product keep every stored quantity
  non-negative: both save through the schema validator, and the first checks the
  stock before it decrements.
\<close>

lemma post_facturas_no_negativo:
  assumes inv: "\<And>j q. productos d j = Some q \<Longrightarrow> no_negativo (cantidad q)"
    and "productos (snd (post_facturas nid now d body)) i = Some p"
  shows "no_negativo (cantidad p)"
proof -
  obtain res ps where ct: "calcular_total (productos d) (Fin 0) (detalles body) = (res, ps)"
    by (cases "calcular_total (productos d) (Fin 0) (detalles body)")
  with assms(2) have "ps i = Some p" by (simp add: post_facturas_productos)
  from calcular_total_no_negativo [OF ct inv this] show ?thesis .
qed

lemma post_productos_no_negativo:
  assumes inv: "\<And>j q. productos d j = Some q \<Longrightarrow> no_negativo (cantidad q)"
    and "productos (snd (post_productos nid body d)) i = Some p"
  shows "no_negativo (cantidad p)"
  using assms
  by (auto simp: post_productos_def validar_producto_def validar_cantidad_def split: if_splits)

text \<open>
  C5 at PUT /productos/:id. The update goes through \<open>findByIdAndUpdate\<close>, which
  does not run the \<open>min: 0\<close> validator of the schema: with the token of an admin
  and the body \<open>{ cantidad: -5 }\<close>, the route answers 200 and product P, whose
  quantity was 5, is stored with quantity -5.
\<close>

theorem put_producto_cantidad_negativa:
  "validar_producto producto_p \<and> validar_producto producto_q
   \<and> authenticateToken verify_ej (Some ''Bearer a'') = Next \<lparr>userId = 1, role = ''admin''\<rparr>
   \<and> estado (fst (ruta_put_producto verify_ej 1 (solo_cantidad (- 5)) (Some ''Bearer a'') db_ej)) = 200
   \<and> map_option cantidad
        (productos (snd (ruta_put_producto verify_ej 1 (solo_cantidad (- 5)) (Some ''Bearer a'') db_ej)) 1)
       = Some (Fin (- 5))"
  by (simp add: ej_defs validar_producto_def validar_cantidad_def authenticateToken_def
        token_de_ejemplos verify_ej_def ruta_put_producto_def protegida_def authorizeRoles_def
        put_producto_def aplicar_cambios_def solo_cantidad_def)

section \<open>The persisted lines and the response\<close>

text \<open>
  C6, as the handler implements it. On success POST /facturas persists exactly one
  DetalleFactura per line of the request, in the order of the request, each with the
  id of the new Factura, the product id and the quantity of its line, and the unit
  price that the caller sent in that line.
\<close>

theorem post_facturas_lineas:
  fixes d :: db and body :: cuerpo_factura and nid :: oid and now :: nat
  defines "r \<equiv> post_facturas nid now d body"
  assumes "estado (fst r) = 200"
  shows "(\<exists>nuevas.
           detallesFactura (snd r) = detallesFactura d @ nuevas \<and>
           list_all2 (\<lambda>l x. det_productoId l = Ref (productoId x) \<and> facturaId x = nid \<and>
                            df_cantidad x = det_cantidad l \<and> df_precio x = det_precio l)
             (detalles body) nuevas)
       \<and> map fac_id (facturas (snd r)) = map fac_id (facturas d) @ [nid]"
proof -
  from post_facturas_200 [OF assms(2) [unfolded r_def]] obtain tot ps c docs where
    docs: "map (documento nid) (detalles body) = map Some docs"
    and res: "r = (json (Json_factura \<lparr>fac_id = nid, fecha = now, clienteId = c, total = tot\<rparr>),
        d\<lparr>productos := ps,
          facturas := facturas d @ [\<lparr>fac_id = nid, fecha = now, clienteId = c, total = tot\<rparr>],
          detallesFactura := detallesFactura d @ docs\<rparr>)"
    unfolding r_def by blast
  from documentos_lineas [OF docs] res show ?thesis by auto
qed

text \<open>
  The property at a request of two lines.
\<close>

theorem post_facturas_lineas_witness:
  "estado (fst (post_facturas 100 0 db_ej (pedido [linea 1 3 1, linea 2 1 7]))) = 200
   \<and> detallesFactura (snd (post_facturas 100 0 db_ej (pedido [linea 1 3 1, linea 2 1 7])))
      = [\<lparr>facturaId = 100, productoId = 1, df_cantidad = Fin 3, df_precio = Fin 1\<rparr>,
         \<lparr>facturaId = 100, productoId = 2, df_cantidad = Fin 1, df_precio = Fin 7\<rparr>]
   \<and> map fac_id (facturas (snd (post_facturas 100 0 db_ej (pedido [linea 1 3 1, linea 2 1 7]))))
      = [100]"
proof -
  have h: "estado (fst (post_facturas 100 0 db_ej (pedido [linea 1 3 1, linea 2 1 7]))) = 200"
    by (simp add: ej_defs run_defs)
  have l: "detallesFactura (snd (post_facturas 100 0 db_ej (pedido [linea 1 3 1, linea 2 1 7])))
      = [\<lparr>facturaId = 100, productoId = 1, df_cantidad = Fin 3, df_precio = Fin 1\<rparr>,
         \<lparr>facturaId = 100, productoId = 2, df_cantidad = Fin 1, df_precio = Fin 7\<rparr>]"
    by (simp add: ej_defs run_defs)
  have f: "facturas db_ej = []"
    by (simp add: db_ej_def)
  show ?thesis
    using h l f post_facturas_lineas [OF h] by simp
qed

text \<open>
  C6 with the product's stored price does not hold: P is stored at 10, the caller
  sends 1 as the price of its line; the total is computed from the stored price (30
  for 3 units) and the persisted line carries 1.
\<close>

theorem post_facturas_precio_del_cliente:
  "map_option precio (productos db_ej 1) = Some (Fin 10)
   \<and> fst (post_facturas 100 0 db_ej (pedido [linea 1 3 1]))
       = json (Json_factura \<lparr>fac_id = 100, fecha = 0, clienteId = 9, total = Fin 30\<rparr>)
   \<and> map df_precio (detallesFactura (snd (post_facturas 100 0 db_ej (pedido [linea 1 3 1]))))
       = [Fin 1]"
  by (simp add: ej_defs run_defs)

text \<open>
  C7, as the handler implements it. On success POST /facturas answers with the
  persisted Factura alone, the last of the collection, with the generated id and the
  customer of the request; the body carries no lines.
\<close>

theorem post_facturas_respuesta:
  fixes d :: db and body :: cuerpo_factura and nid :: oid and now :: nat
  defines "r \<equiv> post_facturas nid now d body"
  assumes "estado (fst r) = 200"
  shows "cuerpo (fst r) = Json_factura (last (facturas (snd r)))
       \<and> facturas (snd r) = facturas d @ [last (facturas (snd r))]
       \<and> fac_id (last (facturas (snd r))) = nid
       \<and> b_clienteId body = Ref (clienteId (last (facturas (snd r))))
       \<and> lineas_de (cuerpo (fst r)) = None"
proof -
  from post_facturas_200 [OF assms(2) [unfolded r_def]] obtain tot ps c docs where
    "b_clienteId body = Ref c"
    and "r = (json (Json_factura \<lparr>fac_id = nid, fecha = now, clienteId = c, total = tot\<rparr>),
        d\<lparr>productos := ps,
          facturas := facturas d @ [\<lparr>fac_id = nid, fecha = now, clienteId = c, total = tot\<rparr>],
          detallesFactura := detallesFactura d @ docs\<rparr>)"
    unfolding r_def by blast
  then show ?thesis by simp
qed

text \<open>
  The property at a request of one line.
\<close>

theorem post_facturas_respuesta_witness:
  "estado (fst (post_facturas 100 0 db_ej (pedido [linea 1 3 10]))) = 200
   \<and> cuerpo (fst (post_facturas 100 0 db_ej (pedido [linea 1 3 10])))
      = Json_factura \<lparr>fac_id = 100, fecha = 0, clienteId = 9, total = Fin 30\<rparr>
   \<and> facturas (snd (post_facturas 100 0 db_ej (pedido [linea 1 3 10])))
      = [\<lparr>fac_id = 100, fecha = 0, clienteId = 9, total = Fin 30\<rparr>]"
proof -
  have h: "estado (fst (post_facturas 100 0 db_ej (pedido [linea 1 3 10]))) = 200"
    by (simp add: ej_defs run_defs)
  have t: "cuerpo (fst (post_facturas 100 0 db_ej (pedido [linea 1 3 10])))
      = Json_factura \<lparr>fac_id = 100, fecha = 0, clienteId = 9, total = Fin 30\<rparr>"
    by (simp add: ej_defs run_defs)
  show ?thesis
    using h t post_facturas_respuesta [OF h] by (simp add: db_ej_def)
qed

text \<open>
  C7 with the lines in the response does not hold: the request succeeds and one
  DetalleFactura is persisted, but the body of the response carries no lines; they are
  read afterwards through GET /facturas/:id.
\<close>

theorem post_facturas_respuesta_sin_lineas:
  "estado (fst (post_facturas 100 0 db_ej (pedido [linea 1 3 10]))) = 200
   \<and> detallesFactura (snd (post_facturas 100 0 db_ej (pedido [linea 1 3 10])))
      = [\<lparr>facturaId = 100, productoId = 1, df_cantidad = Fin 3, df_precio = Fin 10\<rparr>]
   \<and> lineas_de (cuerpo (fst (post_facturas 100 0 db_ej (pedido [linea 1 3 10])))) = None
   \<and> lineas_de (cuerpo (get_factura (snd (post_facturas 100 0 db_ej (pedido [linea 1 3 10]))) 100))
      = Some [\<lparr>facturaId = 100, productoId = 1, df_cantidad = Fin 3, df_precio = Fin 10\<rparr>]"
  by (simp add: ej_defs run_defs get_factura_def)

section \<open>Authentication and roles\<close>

text \<open>
  C8, as the middlewares implement it. On a route behind \<open>authenticateToken\<close> and
  \<open>authorizeRoles\<close>: a request without a token (no header, no second piece in the
  header, or an empty one) is answered 401; a token that the verification rejects is
  answered 403; a verified token whose role is not among the roles of the route is
  answered 403. Each answer is \<open>{ error: message }\<close>, and the handler does not run.
\<close>

theorem protegida_rechazos:
  "(token_de a = None \<or> token_de a = Some [] \<longrightarrow>
      protegida verify roles h a d = (error_json 401 No_se_proporciono_token, d))
   \<and> (token_de a = Some t \<and> t \<noteq> [] \<and> verify t = None \<longrightarrow>
      protegida verify roles h a d = (error_json 403 Token_invalido, d))
   \<and> (token_de a = Some t \<and> t \<noteq> [] \<and> verify t = Some u \<and> role u \<notin> set roles \<longrightarrow>
      protegida verify roles h a d = (error_json 403 No_autorizado, d))"
  by (auto simp: protegida_def authenticateToken_def authorizeRoles_def)

text \<open>
  The three rejections on routes of the server: no header, a rejected token, and the
  token of a facturador on a route for admin only.
\<close>

theorem protegida_rechazos_witness:
  "token_de None = None
   \<and> ruta_get_productos verify_ej None db_ej = (error_json 401 No_se_proporciono_token, db_ej)
   \<and> token_de (Some ''Bearer x'') = Some ''x'' \<and> verify_ej ''x'' = None
   \<and> ruta_get_productos verify_ej (Some ''Bearer x'') db_ej = (error_json 403 Token_invalido, db_ej)
   \<and> token_de (Some ''Bearer f'') = Some ''f''
   \<and> verify_ej ''f'' = Some \<lparr>userId = 3, role = ''facturador''\<rparr>
   \<and> ruta_delete_producto verify_ej 1 (Some ''Bearer f'') db_ej = (error_json 403 No_autorizado, db_ej)"
  using
    protegida_rechazos [of None verify_ej "[''facturador'', ''gestionador'', ''admin'']"
      get_productos db_ej]
    protegida_rechazos [of "Some ''Bearer x''" verify_ej "[''facturador'', ''gestionador'', ''admin'']"
      get_productos db_ej "''x''"]
    protegida_rechazos [of "Some ''Bearer f''" verify_ej "[''admin'']"
      "delete_producto 1" db_ej "''f''" "\<lparr>userId = 3, role = ''facturador''\<rparr>"]
  by (simp add: token_de_ejemplos verify_ej_def ruta_get_productos_def ruta_delete_producto_def)

text \<open>
  C8 with 401 for an invalid credential does not hold: a token that the verification
  rejects is answered 403.
\<close>

theorem token_invalido_403:
  "token_de (Some ''Bearer x'') = Some ''x'' \<and> verify_ej ''x'' = None
   \<and> estado (fst (ruta_get_productos verify_ej (Some ''Bearer x'') db_ej)) = 403
   \<and> cuerpo (fst (ruta_get_productos verify_ej (Some ''Bearer x'') db_ej)) = Json_error Token_invalido"
  by (simp add: token_de_ejemplos verify_ej_def ruta_get_productos_def protegida_def
        authenticateToken_def)

text \<open>
  C9. For every principal that \<open>authenticateToken\<close> lets through, POST /productos
  answers 403 when the role is facturador, and runs the product-creation handler when
  the role is gestionador or admin.
\<close>

theorem ruta_post_productos_roles:
  assumes "authenticateToken verify a = Next u"
  shows "(role u = ''facturador'' \<longrightarrow>
            ruta_post_productos verify nid body a d = (error_json 403 No_autorizado, d))
       \<and> (role u = ''gestionador'' \<or> role u = ''admin'' \<longrightarrow>
            ruta_post_productos verify nid body a d = post_productos nid body d)"
  using assms by (auto simp: ruta_post_productos_def protegida_def authorizeRoles_def)

text \<open>
  The property for the three tokens of the example, one per role.
\<close>

theorem ruta_post_productos_roles_witness:
  "authenticateToken verify_ej (Some ''Bearer f'') = Next \<lparr>userId = 3, role = ''facturador''\<rparr>
   \<and> ruta_post_productos verify_ej 3 producto_q (Some ''Bearer f'') db_ej
       = (error_json 403 No_autorizado, db_ej)
   \<and> authenticateToken verify_ej (Some ''Bearer g'') = Next \<lparr>userId = 2, role = ''gestionador''\<rparr>
   \<and> ruta_post_productos verify_ej 3 producto_q (Some ''Bearer g'') db_ej
       = post_productos 3 producto_q db_ej
   \<and> authenticateToken verify_ej (Some ''Bearer a'') = Next \<lparr>userId = 1, role = ''admin''\<rparr>
   \<and> ruta_post_productos verify_ej 3 producto_q (Some ''Bearer a'') db_ej
       = post_productos 3 producto_q db_ej
   \<and> estado (fst (post_productos 3 producto_q db_ej)) = 200"
proof -
  have f: "authenticateToken verify_ej (Some ''Bearer f'') = Next \<lparr>userId = 3, role = ''facturador''\<rparr>"
    by (simp add: authenticateToken_def token_de_ejemplos verify_ej_def)
  have g: "authenticateToken verify_ej (Some ''Bearer g'') = Next \<lparr>userId = 2, role = ''gestionador''\<rparr>"
    by (simp add: authenticateToken_def token_de_ejemplos verify_ej_def)
  have a: "authenticateToken verify_ej (Some ''Bearer a'') = Next \<lparr>userId = 1, role = ''admin''\<rparr>"
    by (simp add: authenticateToken_def token_de_ejemplos verify_ej_def)
  have p: "estado (fst (post_productos 3 producto_q db_ej)) = 200"
    by (simp add: post_productos_def validar_producto_def validar_cantidad_def producto_q_def)
  show ?thesis
    using f g a p
      ruta_post_productos_roles [OF f, of 3 producto_q db_ej]
      ruta_post_productos_roles [OF g, of 3 producto_q db_ej]
      ruta_post_productos_roles [OF a, of 3 producto_q db_ej]
    by simp
qed

section \<open>Several lines for one product\<close>

text \<open>
  C10, as the handler implements it. The check of a line is made on the quantity
  that the earlier lines of the same call left. When every line references an existing
  product, in exact integer arithmetic, and the lines together ask of some product
  more than it holds, the loop stops at the first line that asks for more than its
  product holds once the earlier lines are taken off: POST /facturas answers 400 with
  the insufficient-stock message for that product, persists no Factura and no
  DetalleFactura, and keeps the decrements of the lines before it, all of them covered
  by the stock.
\<close>

theorem post_facturas_cantidad_combinada:
  assumes exactas: "lineas_exactas (productos d) [] (detalles body)"
    and pedido: "\<exists>l\<in>set (detalles body). det_productoId l = Ref i"
    and prod: "productos d i = Some p"
    and excede: "ent (cantidad p) < cantidad_pedida i (detalles body)"
  shows "\<exists>previas l resto j q.
           detalles body = previas @ l # resto \<and>
           stock_suficiente (productos d) [] previas \<and>
           det_productoId l = Ref j \<and> productos d j = Some q \<and>
           ent (cantidad q) - cantidad_pedida j previas < ent (det_cantidad l) \<and>
           post_facturas nid now d body =
             (error_json 400 (No_hay_suficiente_stock (nombre q)),
              d\<lparr>productos := descontar (productos d) previas\<rparr>)"
proof -
  have no: "\<not> stock_suficiente (productos d) [] (detalles body)"
    using stock_suficiente_combinada [of "productos d" "[]" "detalles body" i p] pedido prod excede
    by auto
  from primera_no_cubierta [OF exactas no] obtain previas l resto where
    ds: "detalles body = previas @ l # resto"
    and pre: "stock_suficiente (productos d) [] previas"
    and ex: "exacta (productos d) previas l" and nc: "\<not> cubierta (productos d) previas l"
    by auto
  from ex obtain j q where j: "det_productoId l = Ref j" and q: "productos d j = Some q"
    and ec: "entero (cantidad q)" and el: "entero (det_cantidad l)"
    by (auto simp: exacta_def split: ref.splits option.splits)
  from nc j q ec el
  have lt: "ent (cantidad q) - cantidad_pedida j previas < ent (det_cantidad l)"
    by (simp add: cubierta_def)
  have "post_facturas nid now d body =
             (error_json 400 (No_hay_suficiente_stock (nombre q)),
              d\<lparr>productos := descontar (productos d) previas\<rparr>)"
    using ds calcular_total_sin_stock [OF pre j q entero_ent [OF ec] entero_ent [OF el] lt, of resto]
    by (simp add: post_facturas_def)
  with ds pre j q lt show ?thesis by blast
qed

text \<open>
  The property at a request with two lines of 3 for P, which holds 5.
\<close>

theorem post_facturas_cantidad_combinada_witness:
  "lineas_exactas (productos db_ej) [] [linea 1 3 10, linea 2 1 7, linea 1 3 10]
   \<and> productos db_ej 1 = Some producto_p
   \<and> ent (cantidad producto_p) < cantidad_pedida 1 [linea 1 3 10, linea 2 1 7, linea 1 3 10]
   \<and> estado (fst (post_facturas 100 0 db_ej (pedido [linea 1 3 10, linea 2 1 7, linea 1 3 10]))) = 400
   \<and> facturas (snd (post_facturas 100 0 db_ej (pedido [linea 1 3 10, linea 2 1 7, linea 1 3 10]))) = []
   \<and> detallesFactura (snd (post_facturas 100 0 db_ej (pedido [linea 1 3 10, linea 2 1 7, linea 1 3 10]))) = []"
proof -
  have e: "lineas_exactas (productos db_ej) []
             (detalles (pedido [linea 1 3 10, linea 2 1 7, linea 1 3 10]))"
    by (simp add: ej_defs prop_defs)
  have i: "\<exists>l\<in>set (detalles (pedido [linea 1 3 10, linea 2 1 7, linea 1 3 10])).
             det_productoId l = Ref 1"
    by (simp add: ej_defs)
  have p: "productos db_ej 1 = Some producto_p"
    by (simp add: ej_defs)
  have x: "ent (cantidad producto_p)
             < cantidad_pedida 1 (detalles (pedido [linea 1 3 10, linea 2 1 7, linea 1 3 10]))"
    by (simp add: ej_defs)
  have c: "facturas db_ej = []" "detallesFactura db_ej = []"
    by (simp_all add: db_ej_def)
  show ?thesis
    using e p x c post_facturas_cantidad_combinada [OF e i p x, of 100 0]
    by (auto simp: pedido_def)
qed

text \<open>
  C10 for every request does not hold: the two lines of 3 for P come after a line
  for product 3, which does not exist, and the answer is the not-found message.
\<close>

theorem post_facturas_inexistente_antes:
  "ent (cantidad producto_p) < cantidad_pedida 1 [linea 3 1 1, linea 1 3 10, linea 1 3 10]
   \<and> productos db_ej 1 = Some producto_p
   \<and> fst (post_facturas 100 0 db_ej (pedido [linea 3 1 1, linea 1 3 10, linea 1 3 10]))
       = error_json 400 (Producto_no_encontrado 3)"
  by (simp add: ej_defs run_defs)

text \<open>
  The other condition. Above the safe integers a combined quantity beyond the stock
  can be served: with 9007199254740996 in stock, the line of 1 leaves the same
  quantity, since the difference rounds back to it, and the line of 9007199254740996
  is served as well.
\<close>

lemma post_facturas_sobreventa:
  "cantidad_pedida 1 [linea 1 1 1, linea 1 9007199254740996 1] = 9007199254740997
   \<and> estado (fst (post_facturas 100 0
          \<lparr>productos = [1 \<mapsto> \<lparr>nombre = ''P'', descripcion = [],
                                precio = Fin 0, cantidad = Fin 9007199254740996\<rparr>],
           facturas = [], detallesFactura = []\<rparr>
          (pedido [linea 1 1 1, linea 1 9007199254740996 1]))) = 200
   \<and> map_option cantidad (productos (snd (post_facturas 100 0
          \<lparr>productos = [1 \<mapsto> \<lparr>nombre = ''P'', descripcion = [],
                                precio = Fin 0, cantidad = Fin 9007199254740996\<rparr>],
           facturas = [], detallesFactura = []\<rparr>
          (pedido [linea 1 1 1, linea 1 9007199254740996 1]))) 1) = Some (Fin 0)"
  using resta_redondea
  by (simp add: ej_defs post_facturas_def validar_cantidad_def redondear_pequeno documento_def
        Let_def resta_def)

end
